theory Spec2Isabelle
  imports Main
begin

section \<open>Values, strings and observable actions\<close>

text \<open>
  The two components of \<^verbatim>\<open>multi-select-input.tsx\<close> are React function components.
  What they do is observable as a sequence of calls: state setters, \<^verbatim>\<open>field.onChange\<close>,
  \<^verbatim>\<open>loadOptions\<close>, \<^verbatim>\<open>console.error\<close>, \<^verbatim>\<open>toast\<close>. A handler is modelled by the list of
  calls it makes, in order, together with the way it completes.

  A JavaScript string is a \<open>string\<close> whose characters are code units; every literal of the
  source is within Latin-1, so the accented letters are written by their code.
\<close>

datatype jsval = JUndefined | JNull | JString string | JNumber int | JBool bool

definition e_acute :: char where
  "e_acute = CHR 0xE9"

definition e_grave :: char where
  "e_grave = CHR 0xE8"

definition a_grave :: char where
  "a_grave = CHR 0xE0"

text \<open>\<^verbatim>\<open>interface Option { value: string; label: string }\<close>\<close>

record Option_item =
  option_value :: string
  option_label :: string

datatype js_file = File string

datatype toast_variant = Success | Destructive

record toast_args =
  title :: string
  description :: string
  variant :: toast_variant

text \<open>
  The argument of \<^verbatim>\<open>loadOptions\<close>: \<^verbatim>\<open>{ [dependsOn]: dependencyValue }\<close>, or undefined.
\<close>

type_synonym formData = "(string \<times> jsval) option"

datatype action =
    SetLoading bool
  | SetOptions "Option_item list"
  | LoadOptions formData
  | ConsoleError string jsval
  | FieldOnChange "string list"
  | StopPropagation
  | SetIsUploading bool
  | FormDataAppend string js_file
  | SetTimeout nat
  | CreateObjectURL js_file
  | Toast toast_args

section \<open>Control flow: throw, await, try / catch / finally\<close>

text \<open>
  A promise settles with a value, settles with a rejection, or never settles. A piece of
  code returns, throws, or stays suspended at an \<^verbatim>\<open>await\<close>.
\<close>

datatype 'a promise = Resolves 'a | Rejects jsval | NeverSettles

datatype 'a completion = Returned 'a | Threw jsval | Pending

type_synonym 'a prog = "action list \<times> 'a completion"

definition emit :: "action \<Rightarrow> unit prog" where
  "emit a = ([a], Returned ())"

definition await :: "'a promise \<Rightarrow> 'a prog" where
  "await p = (case p of
      Resolves v \<Rightarrow> ([], Returned v)
    | Rejects e \<Rightarrow> ([], Threw e)
    | NeverSettles \<Rightarrow> ([], Pending))"

fun bind_prog :: "'a prog \<Rightarrow> ('a \<Rightarrow> 'b prog) \<Rightarrow> 'b prog" where
  "bind_prog (t, Returned v) f = (case f v of (t', r) \<Rightarrow> (t @ t', r))"
| "bind_prog (t, Threw e) f = (t, Threw e)"
| "bind_prog (t, Pending) f = (t, Pending)"

fun catch_prog :: "'a prog \<Rightarrow> (jsval \<Rightarrow> 'a prog) \<Rightarrow> 'a prog" where
  "catch_prog (t, Threw e) h = (case h e of (t', r) \<Rightarrow> (t @ t', r))"
| "catch_prog (t, Returned v) h = (t, Returned v)"
| "catch_prog (t, Pending) h = (t, Pending)"

text \<open>
  The \<^verbatim>\<open>finally\<close> block runs after a return and after a throw, not while the body is
  still suspended; an abrupt completion of the block itself replaces the body's.
\<close>

fun finally_prog :: "'a prog \<Rightarrow> unit prog \<Rightarrow> 'a prog" where
  "finally_prog (t, Pending) fin = (t, Pending)"
| "finally_prog (t, r) (t', Returned u) = (t @ t', r)"
| "finally_prog (t, r) (t', Threw e) = (t @ t', Threw e)"
| "finally_prog (t, r) (t', Pending) = (t @ t', Pending)"

definition try_catch_finally :: "'a prog \<Rightarrow> (jsval \<Rightarrow> 'a prog) \<Rightarrow> unit prog \<Rightarrow> 'a prog" where
  "try_catch_finally body handler fin = finally_prog (catch_prog body handler) fin"

section \<open>CustomFormMultiSelect\<close>

subsection \<open>Props, form state and component state\<close>

record props =
  name :: string
  labelText :: string
  placeholder :: "string option"
  initialOptions :: "Option_item list"
  disabled :: bool
  loadOptions :: "(formData \<Rightarrow> Option_item list promise) option"
  dependsOn :: "string option"

text \<open>
  The form state read by \<^verbatim>\<open>useWatch\<close>: the watched field's value, undefined when the
  form has none.
\<close>

type_synonym control = "(string \<times> jsval) list"

definition useWatch :: "control \<Rightarrow> string \<Rightarrow> jsval" where
  "useWatch c d = (case map_of c d of None \<Rightarrow> JUndefined | Some v \<Rightarrow> v)"

record select_state =
  options :: "Option_item list"
  loading :: bool

text \<open>
  \<^verbatim>\<open>useState(initialOptions || [])\<close> and \<^verbatim>\<open>useState(!!loadOptions)\<close>.
\<close>

definition initial_state :: "props \<Rightarrow> select_state" where
  "initial_state p = \<lparr>options = initialOptions p, loading = (loadOptions p \<noteq> None)\<rparr>"

fun apply_action :: "select_state \<Rightarrow> action \<Rightarrow> select_state" where
  "apply_action s (SetLoading b) = s\<lparr>loading := b\<rparr>"
| "apply_action s (SetOptions xs) = s\<lparr>options := xs\<rparr>"
| "apply_action s a = s"

definition run_actions :: "select_state \<Rightarrow> action list \<Rightarrow> select_state" where
  "run_actions s t = foldl apply_action s t"

subsection \<open>The dependency and the option-loading effect\<close>

text \<open>A string prop is truthy when it is given and not empty.\<close>

definition truthy :: "string option \<Rightarrow> bool" where
  "truthy d = (case d of None \<Rightarrow> False | Some s \<Rightarrow> s \<noteq> [])"

text \<open>\<^verbatim>\<open>dependsOn ? useWatch({ control, name: dependsOn }) : undefined\<close>\<close>

definition dependencyValue :: "props \<Rightarrow> control \<Rightarrow> jsval" where
  "dependencyValue p c = (case dependsOn p of
      None \<Rightarrow> JUndefined
    | Some d \<Rightarrow> if d \<noteq> [] then useWatch c d else JUndefined)"

definition hasDependencyValue :: "jsval \<Rightarrow> bool" where
  "hasDependencyValue dv = (dv \<noteq> JUndefined \<and> dv \<noteq> JNull \<and> dv \<noteq> JString [])"

text \<open>\<^verbatim>\<open>dependsOn ? { [dependsOn]: dependencyValue } : undefined\<close>\<close>

definition make_formData :: "props \<Rightarrow> jsval \<Rightarrow> formData" where
  "make_formData p dv = (case dependsOn p of
      None \<Rightarrow> None
    | Some d \<Rightarrow> if d \<noteq> [] then Some (d, dv) else None)"

definition load_error_message :: "props \<Rightarrow> string" where
  "load_error_message p = ''Erreur lors du chargement des options pour '' @ name p @ '':''"

definition call_loadOptions ::
    "(formData \<Rightarrow> Option_item list promise) \<Rightarrow> formData \<Rightarrow> Option_item list prog" where
  "call_loadOptions load fd = bind_prog (emit (LoadOptions fd)) (\<lambda>_. await (load fd))"

definition fetchOptions :: "props \<Rightarrow> jsval \<Rightarrow> unit prog" where
  "fetchOptions p dv = (case loadOptions p of
      None \<Rightarrow> ([], Returned ())
    | Some load \<Rightarrow>
        try_catch_finally
          (bind_prog (emit (SetLoading True)) (\<lambda>_.
             bind_prog (call_loadOptions load (make_formData p dv)) (\<lambda>fetchedOptions.
               emit (SetOptions fetchedOptions))))
          (\<lambda>error. emit (ConsoleError (load_error_message p) error))
          (emit (SetLoading False)))"

text \<open>
  One run of the effect. The effect does not await \<^verbatim>\<open>fetchOptions()\<close>; the completion
  given here is that of the promise \<^verbatim>\<open>fetchOptions()\<close> returns, the trace is what the
  run does until that promise settles.
\<close>

definition useEffect_run :: "props \<Rightarrow> control \<Rightarrow> unit prog" where
  "useEffect_run p c =
     (let dv = dependencyValue p c in
      if \<not> truthy (dependsOn p) \<or> hasDependencyValue dv then fetchOptions p dv
      else if truthy (dependsOn p) then emit (SetOptions [])
      else ([], Returned ()))"

subsection \<open>Rendering: the trigger button and its badges\<close>

record badge =
  badge_key :: string
  badge_text :: string
  badge_has_X :: bool
  badge_onClick :: "action list"

datatype trigger_content =
    TriggerLoading string
  | TriggerHint string
  | TriggerBadges "badge list"
  | TriggerPlaceholder string

definition badge_click :: "bool \<Rightarrow> string list \<Rightarrow> string \<Rightarrow> action list" where
  "badge_click dis fieldValue v =
     StopPropagation #
       (if dis then []
        else (let newValue = filter (\<lambda>w. w \<noteq> v) fieldValue in [FieldOnChange newValue]))"

text \<open>\<^verbatim>\<open>option?.label || value\<close> with \<^verbatim>\<open>option = options.find(opt => opt.value === value)\<close>\<close>

definition badge_label :: "Option_item list \<Rightarrow> string \<Rightarrow> string" where
  "badge_label opts v = (case find (\<lambda>opt. option_value opt = v) opts of
      None \<Rightarrow> v
    | Some opt \<Rightarrow> if option_label opt = [] then v else option_label opt)"

definition renderBadge :: "props \<Rightarrow> select_state \<Rightarrow> string list \<Rightarrow> string \<Rightarrow> badge" where
  "renderBadge p s fieldValue v =
     \<lparr>badge_key = v,
      badge_text = badge_label (options s) v,
      badge_has_X = (\<not> disabled p),
      badge_onClick = badge_click (disabled p) fieldValue v\<rparr>"

definition select_placeholder :: "props \<Rightarrow> string" where
  "select_placeholder p = (case placeholder p of
      None \<Rightarrow> ''S'' @ [e_acute] @ ''lectionner...''
    | Some t \<Rightarrow> if t = [] then ''S'' @ [e_acute] @ ''lectionner...'' else t)"

definition dependency_hint :: "string \<Rightarrow> string" where
  "dependency_hint d = ''S'' @ [e_acute] @ ''lectionnez d'' @ [CHR 0x27] @ ''abord un '' @ d"

definition renderTrigger :: "props \<Rightarrow> control \<Rightarrow> select_state \<Rightarrow> string list option \<Rightarrow> trigger_content" where
  "renderTrigger p c s fieldValue =
     (if loading s then TriggerLoading ''Chargement...''
      else if truthy (dependsOn p) \<and> \<not> hasDependencyValue (dependencyValue p c)
        then TriggerHint (dependency_hint (case dependsOn p of None \<Rightarrow> [] | Some d \<Rightarrow> d))
      else (case fieldValue of
          None \<Rightarrow> TriggerPlaceholder (select_placeholder p)
        | Some vs \<Rightarrow>
            if length vs > 0 then TriggerBadges (map (renderBadge p s vs) vs)
            else TriggerPlaceholder (select_placeholder p)))"

subsection \<open>Rendering: the option list\<close>

record command_item =
  item_key :: string
  item_value :: string
  item_isSelected :: bool
  item_label :: string
  item_onSelect :: "action list"

datatype group_content = NoOptions string | Items "command_item list"

datatype popover_content = PopoverLoading | PopoverList string group_content

text \<open>\<^verbatim>\<open>field.value?.includes(x)\<close>: undefined, hence falsy, when the field has no value.\<close>

definition field_includes :: "string list option \<Rightarrow> string \<Rightarrow> bool" where
  "field_includes fieldValue x = (case fieldValue of None \<Rightarrow> False | Some vs \<Rightarrow> x \<in> set vs)"

text \<open>\<^verbatim>\<open>field.value || []\<close>\<close>

definition value_or_empty :: "string list option \<Rightarrow> string list" where
  "value_or_empty fieldValue = (case fieldValue of None \<Rightarrow> [] | Some vs \<Rightarrow> vs)"

definition onSelect :: "string list option \<Rightarrow> bool \<Rightarrow> Option_item \<Rightarrow> action list" where
  "onSelect fieldValue isSelected opt =
     (let newValue = value_or_empty fieldValue;
          selectedValue = option_value opt
      in [FieldOnChange
            (if isSelected then filter (\<lambda>v. v \<noteq> selectedValue) newValue
             else newValue @ [selectedValue])])"

definition renderItem :: "string list option \<Rightarrow> Option_item \<Rightarrow> command_item" where
  "renderItem fieldValue opt =
     (let isSelected = field_includes fieldValue (option_value opt) in
      \<lparr>item_key = option_value opt,
       item_value = option_value opt,
       item_isSelected = isSelected,
       item_label = option_label opt,
       item_onSelect = onSelect fieldValue isSelected opt\<rparr>)"

definition renderGroup :: "select_state \<Rightarrow> string list option \<Rightarrow> group_content" where
  "renderGroup s fieldValue =
     (if length (options s) = 0 \<and> \<not> loading s then NoOptions ''Aucune option disponible''
      else Items (map (renderItem fieldValue) (options s)))"

definition no_result_text :: string where
  "no_result_text = ''Aucun r'' @ [e_acute] @ ''sultat trouv'' @ [e_acute] @ ''.''"

definition renderPopover :: "select_state \<Rightarrow> string list option \<Rightarrow> popover_content" where
  "renderPopover s fieldValue =
     (if loading s then PopoverLoading
      else PopoverList no_result_text (renderGroup s fieldValue))"

fun command_items :: "popover_content \<Rightarrow> command_item list" where
  "command_items PopoverLoading = []"
| "command_items (PopoverList t (NoOptions u)) = []"
| "command_items (PopoverList t (Items its)) = its"

section \<open>ProfileHeader\<close>

record profile_state =
  isUploading :: bool
  coverIsUploading :: bool

fun apply_profile_action :: "profile_state \<Rightarrow> action \<Rightarrow> profile_state" where
  "apply_profile_action s (SetIsUploading b) = s\<lparr>isUploading := b\<rparr>"
| "apply_profile_action s a = s"

definition run_profile_actions :: "profile_state \<Rightarrow> action list \<Rightarrow> profile_state" where
  "run_profile_actions s t = foldl apply_profile_action s t"

text \<open>
  What the handler calls outside this file: \<^verbatim>\<open>URL.createObjectURL\<close> and \<^verbatim>\<open>setTimeout\<close> of
  the browser, and \<^verbatim>\<open>toast\<close> of the \<^verbatim>\<open>useToast\<close> hook. Each is a parameter: for an
  argument, whether the call returns or throws, and for a delay, how the promise
  \<^verbatim>\<open>new Promise((resolve) => setTimeout(resolve, ms))\<close> settles (it resolves when the timer
  fires, and never settles if the timer never fires).
\<close>

record upload_env =
  object_url :: "js_file \<Rightarrow> jsval + string"
  toast_throws :: "toast_args \<Rightarrow> jsval option"
  timer :: "nat \<Rightarrow> unit promise"

definition createObjectURL :: "upload_env \<Rightarrow> js_file \<Rightarrow> string prog" where
  "createObjectURL env f =
     ([CreateObjectURL f], case object_url env f of Inl e \<Rightarrow> Threw e | Inr u \<Rightarrow> Returned u)"

definition toast :: "upload_env \<Rightarrow> toast_args \<Rightarrow> unit prog" where
  "toast env a =
     ([Toast a], case toast_throws env a of None \<Rightarrow> Returned () | Some e \<Rightarrow> Threw e)"

definition success_toast :: toast_args where
  "success_toast =
     \<lparr>title = ''Image mise '' @ [a_grave] @ '' jour'',
      description = ''Votre photo de profil a '' @ [e_acute] @ ''t'' @ [e_acute] @ '' mise ''
        @ [a_grave] @ '' jour avec succ'' @ [e_grave] @ ''s.'',
      variant = Success\<rparr>"

definition error_toast :: toast_args where
  "error_toast =
     \<lparr>title = ''Erreur'',
      description = ''Une erreur est survenue lors de la mise '' @ [a_grave]
        @ '' jour de votre photo.'',
      variant = Destructive\<rparr>"

text \<open>\<^verbatim>\<open>e.target.files?.[0]\<close>: \<^verbatim>\<open>files\<close> is a list of files or null.\<close>

definition first_file :: "js_file list option \<Rightarrow> js_file option" where
  "first_file files = (case files of
      None \<Rightarrow> None
    | Some fs \<Rightarrow> (case fs of [] \<Rightarrow> None | f # _ \<Rightarrow> Some f))"

text \<open>
  \<^verbatim>\<open>await new Promise((resolve) => setTimeout(resolve, 1500))\<close>: the timer is set, and the
  handler is suspended until the timer's promise settles.
\<close>

definition upload_delay :: "upload_env \<Rightarrow> unit prog" where
  "upload_delay env = bind_prog (emit (SetTimeout 1500)) (\<lambda>_. await (timer env 1500))"

definition handleProfileImageChange :: "upload_env \<Rightarrow> js_file list option \<Rightarrow> unit prog" where
  "handleProfileImageChange env files = (case first_file files of
      None \<Rightarrow> ([], Returned ())
    | Some f \<Rightarrow>
        try_catch_finally
          (bind_prog (emit (SetIsUploading True)) (\<lambda>_.
             bind_prog (emit (FormDataAppend ''image'' f)) (\<lambda>_.
               bind_prog (upload_delay env) (\<lambda>_.
                 bind_prog (createObjectURL env f) (\<lambda>imageUrl.
                   toast env success_toast)))))
          (\<lambda>error. toast env error_toast)
          (emit (SetIsUploading False)))"

section \<open>Observing a trace\<close>

text \<open>The arguments of the calls of one kind in a trace, in order.\<close>

fun loadOptions_calls :: "action list \<Rightarrow> formData list" where
  "loadOptions_calls [] = []"
| "loadOptions_calls (LoadOptions fd # t) = fd # loadOptions_calls t"
| "loadOptions_calls (a # t) = loadOptions_calls t"

fun setOptions_calls :: "action list \<Rightarrow> Option_item list list" where
  "setOptions_calls [] = []"
| "setOptions_calls (SetOptions xs # t) = xs # setOptions_calls t"
| "setOptions_calls (a # t) = setOptions_calls t"

fun onChange_calls :: "action list \<Rightarrow> string list list" where
  "onChange_calls [] = []"
| "onChange_calls (FieldOnChange vs # t) = vs # onChange_calls t"
| "onChange_calls (a # t) = onChange_calls t"

fun toast_calls :: "action list \<Rightarrow> toast_args list" where
  "toast_calls [] = []"
| "toast_calls (Toast a # t) = a # toast_calls t"
| "toast_calls (a # t) = toast_calls t"

fun setIsUploading_calls :: "action list \<Rightarrow> bool list" where
  "setIsUploading_calls [] = []"
| "setIsUploading_calls (SetIsUploading b # t) = b # setIsUploading_calls t"
| "setIsUploading_calls (a # t) = setIsUploading_calls t"

text \<open>
  The form library's contract for \<^verbatim>\<open>field.onChange\<close>: the field's value becomes the
  argument of the call.
\<close>

fun field_after :: "string list option \<Rightarrow> action list \<Rightarrow> string list option" where
  "field_after fv [] = fv"
| "field_after fv (FieldOnChange vs # t) = field_after (Some vs) t"
| "field_after fv (a # t) = field_after fv t"

section \<open>Example inputs\<close>

definition opt_a :: Option_item where
  "opt_a = \<lparr>option_value = ''a'', option_label = ''Alpha''\<rparr>"

definition opt_b :: Option_item where
  "opt_b = \<lparr>option_value = ''b'', option_label = ''Beta''\<rparr>"

definition idle_state :: select_state where
  "idle_state = \<lparr>options = [opt_a, opt_b], loading = False\<rparr>"

definition static_props :: props where
  "static_props =
     \<lparr>name = ''specialty'', labelText = ''Specialty'', placeholder = None,
      initialOptions = [opt_a, opt_b], disabled = False, loadOptions = None,
      dependsOn = None\<rparr>"

definition failing_loader :: "formData \<Rightarrow> Option_item list promise" where
  "failing_loader fd = Rejects (JString ''network'')"

definition working_loader :: "formData \<Rightarrow> Option_item list promise" where
  "working_loader fd = Resolves [opt_b]"

definition failing_props :: props where
  "failing_props = static_props\<lparr>loadOptions := Some failing_loader\<rparr>"

definition dependent_props :: props where
  "dependent_props =
     static_props\<lparr>loadOptions := Some working_loader, dependsOn := Some ''hospital''\<rparr>"

definition browser_env :: upload_env where
  "browser_env =
     \<lparr>object_url = (\<lambda>f. Inr ''blob:1''), toast_throws = (\<lambda>a. None),
      timer = (\<lambda>ms. Resolves ())\<rparr>"

definition broken_env :: upload_env where
  "broken_env =
     \<lparr>object_url = (\<lambda>f. Inl (JString ''TypeError'')), toast_throws = (\<lambda>a. None),
      timer = (\<lambda>ms. Resolves ())\<rparr>"

definition stalled_env :: upload_env where
  "stalled_env =
     \<lparr>object_url = (\<lambda>f. Inr ''blob:1''), toast_throws = (\<lambda>a. None),
      timer = (\<lambda>ms. NeverSettles)\<rparr>"


section \<open>Facts about the option-loading effect\<close>

lemma fetchOptions_absent:
  "loadOptions p = None \<Longrightarrow> fetchOptions p dv = ([], Returned ())"
  by (simp add: fetchOptions_def)

lemma fetchOptions_resolves:
  assumes "loadOptions p = Some load" and "load (make_formData p dv) = Resolves xs"
  shows "fetchOptions p dv =
    ([SetLoading True, LoadOptions (make_formData p dv), SetOptions xs, SetLoading False],
     Returned ())"
  using assms
  by (simp add: fetchOptions_def try_catch_finally_def call_loadOptions_def emit_def await_def)

lemma fetchOptions_rejects:
  assumes "loadOptions p = Some load" and "load (make_formData p dv) = Rejects e"
  shows "fetchOptions p dv =
    ([SetLoading True, LoadOptions (make_formData p dv),
      ConsoleError (load_error_message p) e, SetLoading False],
     Returned ())"
  using assms
  by (simp add: fetchOptions_def try_catch_finally_def call_loadOptions_def emit_def await_def)

lemma fetchOptions_never_settles:
  assumes "loadOptions p = Some load" and "load (make_formData p dv) = NeverSettles"
  shows "fetchOptions p dv =
    ([SetLoading True, LoadOptions (make_formData p dv)], Pending)"
  using assms
  by (simp add: fetchOptions_def try_catch_finally_def call_loadOptions_def emit_def await_def)

lemma useEffect_fetches:
  "\<not> truthy (dependsOn p) \<or> hasDependencyValue (dependencyValue p c) \<Longrightarrow>
     useEffect_run p c = fetchOptions p (dependencyValue p c)"
  by (simp add: useEffect_run_def Let_def)

lemma useEffect_resets:
  "truthy (dependsOn p) \<Longrightarrow> \<not> hasDependencyValue (dependencyValue p c) \<Longrightarrow>
     useEffect_run p c = ([SetOptions []], Returned ())"
  by (simp add: useEffect_run_def Let_def emit_def)

lemma hasDependencyValue_iff:
  "hasDependencyValue dv \<longleftrightarrow> dv \<notin> {JUndefined, JNull, JString []}"
  by (simp add: hasDependencyValue_def)

section \<open>Facts about the handlers\<close>

lemma onSelect_unselected:
  "option_value opt \<notin> set (value_or_empty fv) \<Longrightarrow>
     item_onSelect (renderItem fv opt) = [FieldOnChange (value_or_empty fv @ [option_value opt])]"
  by (cases fv) (simp_all add: renderItem_def onSelect_def field_includes_def value_or_empty_def)

lemma onSelect_selected:
  "option_value opt \<in> set v \<Longrightarrow>
     item_onSelect (renderItem (Some v) opt) = [FieldOnChange (removeAll (option_value opt) v)]"
  by (simp add: renderItem_def onSelect_def field_includes_def value_or_empty_def
      removeAll_filter_not_eq eq_commute)

lemma badge_onClick_enabled:
  "\<not> disabled p \<Longrightarrow>
     badge_onClick (renderBadge p s v x) = [StopPropagation, FieldOnChange (removeAll x v)]"
  by (simp add: renderBadge_def badge_click_def removeAll_filter_not_eq eq_commute)

lemma badge_onClick_disabled:
  "disabled p \<Longrightarrow> badge_onClick (renderBadge p s v x) = [StopPropagation]"
  by (simp add: renderBadge_def badge_click_def)

lemma command_items_displayed:
  "\<not> loading s \<Longrightarrow> options s \<noteq> [] \<Longrightarrow>
     command_items (renderPopover s fv) = map (renderItem fv) (options s)"
  by (simp add: renderPopover_def renderGroup_def)

lemma badges_displayed:
  assumes "\<not> loading s" and "\<not> truthy (dependsOn p) \<or> hasDependencyValue (dependencyValue p c)"
    and "v \<noteq> []"
  shows "renderTrigger p c s (Some v) = TriggerBadges (map (renderBadge p s v) v)"
  using assms by (auto simp add: renderTrigger_def)

section \<open>Selecting and deselecting\<close>

text \<open>
  C1. Let \<open>v\<close> be the current selection, the empty list when the field has no value. For
  every option that the open list displays and whose value is not in \<open>v\<close>, the item
  rendered for it is among the displayed items, and its \<^verbatim>\<open>onSelect\<close> handler makes one
  call: \<^verbatim>\<open>field.onChange\<close> with \<open>v\<close> followed by the option's value.
\<close>

theorem select_appends:
  assumes "\<not> loading s" and "opt \<in> set (options s)"
    and "option_value opt \<notin> set (value_or_empty fv)"
  shows "command_items (renderPopover s fv) = map (renderItem fv) (options s) \<and>
         renderItem fv opt \<in> set (command_items (renderPopover s fv)) \<and>
         item_onSelect (renderItem fv opt)
           = [FieldOnChange (value_or_empty fv @ [option_value opt])]"
proof -
  from assms(2) have "options s \<noteq> []" by auto
  with assms(1) have shown: "command_items (renderPopover s fv) = map (renderItem fv) (options s)"
    by (rule command_items_displayed)
  with assms(2) have "renderItem fv opt \<in> set (command_items (renderPopover s fv))"
    by simp
  with shown onSelect_unselected [OF assms(3)] show ?thesis by simp
qed

theorem select_appends_witness:
  "command_items (renderPopover idle_state (Some [''a'']))
     = map (renderItem (Some [''a''])) [opt_a, opt_b]
   \<and> renderItem (Some [''a'']) opt_b \<in> set (command_items (renderPopover idle_state (Some [''a''])))
   \<and> item_onSelect (renderItem (Some [''a'']) opt_b) = [FieldOnChange [''a'', ''b'']]"
  using select_appends [of idle_state opt_b "Some [''a'']"]
  by (simp add: idle_state_def opt_a_def opt_b_def value_or_empty_def)

text \<open>
  C2. For a selection \<open>v\<close> and a value \<open>x\<close> in it, the \<^verbatim>\<open>onSelect\<close> handler of an option
  whose value is \<open>x\<close> (the option is then selected), and the \<^verbatim>\<open>onClick\<close> handler of the
  badge of \<open>x\<close> when the component is not disabled, call \<^verbatim>\<open>field.onChange\<close> with \<open>v\<close>
  without any occurrence of \<open>x\<close>, the other values in their order.
\<close>

theorem deselect_removes:
  assumes "x \<in> set v"
  shows "(option_value opt = x \<longrightarrow>
            item_onSelect (renderItem (Some v) opt) = [FieldOnChange (removeAll x v)]) \<and>
         (\<not> disabled p \<longrightarrow>
            badge_onClick (renderBadge p s v x) = [StopPropagation, FieldOnChange (removeAll x v)])"
  using assms onSelect_selected [of opt v] badge_onClick_enabled [of p s v x] by auto

theorem deselect_removes_witness:
  "item_onSelect (renderItem (Some [''a'', ''b'', ''a'']) opt_a) = [FieldOnChange [''b'']] \<and>
   badge_onClick (renderBadge static_props idle_state [''a'', ''b'', ''a''] ''a'')
     = [StopPropagation, FieldOnChange [''b'']]"
  using deselect_removes [of "''a''" "[''a'', ''b'', ''a'']" opt_a static_props idle_state]
  by (simp add: opt_a_def static_props_def)

section \<open>The dependency and the loading of options\<close>

text \<open>
  C3, as stated, fails: a select with static options has no \<^verbatim>\<open>dependsOn\<close> and no
  \<^verbatim>\<open>loadOptions\<close>; its effect runs \<^verbatim>\<open>fetchOptions\<close>, whose guard \<^verbatim>\<open>if (loadOptions)\<close>
  skips the call.
\<close>

theorem static_select_never_loads:
  "\<not> truthy (dependsOn static_props) \<and>
   loadOptions_calls (fst (useEffect_run static_props [])) = []"
  by (simp add: static_props_def useEffect_run_def truthy_def dependencyValue_def
      hasDependencyValue_def fetchOptions_def)

text \<open>
  C3, amended. \<^verbatim>\<open>dependsOn\<close> is provided when it is a non-empty string, which is what the
  code tests. When it is provided and the watched value is undefined, null or the empty
  string, the effect does one thing, \<^verbatim>\<open>setOptions([])\<close>: \<^verbatim>\<open>loadOptions\<close> is not called and
  the options become the empty list. Otherwise the effect calls \<^verbatim>\<open>loadOptions\<close> once, with
  the form data of the dependency, if the \<^verbatim>\<open>loadOptions\<close> prop is given, and does nothing
  if it is not.
\<close>

theorem dependency_gates_loading:
  "(truthy (dependsOn p) \<and> dependencyValue p c \<in> {JUndefined, JNull, JString []} \<longrightarrow>
      useEffect_run p c = ([SetOptions []], Returned ()) \<and>
      loadOptions_calls (fst (useEffect_run p c)) = [] \<and>
      options (run_actions s (fst (useEffect_run p c))) = [])
   \<and>
   (\<not> truthy (dependsOn p) \<or> dependencyValue p c \<notin> {JUndefined, JNull, JString []} \<longrightarrow>
      (\<forall>load. loadOptions p = Some load \<longrightarrow>
         loadOptions_calls (fst (useEffect_run p c))
           = [make_formData p (dependencyValue p c)]) \<and>
      (loadOptions p = None \<longrightarrow> useEffect_run p c = ([], Returned ())))"
proof (intro conjI impI allI)
  assume empty: "truthy (dependsOn p) \<and> dependencyValue p c \<in> {JUndefined, JNull, JString []}"
  then have run: "useEffect_run p c = ([SetOptions []], Returned ())"
    by (simp add: useEffect_resets hasDependencyValue_iff)
  show "useEffect_run p c = ([SetOptions []], Returned ())" by (rule run)
  show "loadOptions_calls (fst (useEffect_run p c)) = []" by (simp add: run)
  show "options (run_actions s (fst (useEffect_run p c))) = []"
    by (simp add: run run_actions_def)
next
  fix load
  assume fetch: "\<not> truthy (dependsOn p) \<or> dependencyValue p c \<notin> {JUndefined, JNull, JString []}"
    and given: "loadOptions p = Some load"
  from fetch have run: "useEffect_run p c = fetchOptions p (dependencyValue p c)"
    by (intro useEffect_fetches) (simp add: hasDependencyValue_iff)
  show "loadOptions_calls (fst (useEffect_run p c)) = [make_formData p (dependencyValue p c)]"
  proof (cases "load (make_formData p (dependencyValue p c))")
    case (Resolves xs)
    with given show ?thesis by (simp add: run fetchOptions_resolves)
  next
    case (Rejects e)
    with given show ?thesis by (simp add: run fetchOptions_rejects)
  next
    case NeverSettles
    with given show ?thesis by (simp add: run fetchOptions_never_settles)
  qed
next
  assume fetch: "\<not> truthy (dependsOn p) \<or> dependencyValue p c \<notin> {JUndefined, JNull, JString []}"
    and absent: "loadOptions p = None"
  from fetch have "useEffect_run p c = fetchOptions p (dependencyValue p c)"
    by (intro useEffect_fetches) (simp add: hasDependencyValue_iff)
  with absent show "useEffect_run p c = ([], Returned ())"
    by (simp add: fetchOptions_absent)
qed

theorem dependency_gates_loading_witness:
  "(useEffect_run dependent_props [(''hospital'', JString [])] = ([SetOptions []], Returned ()) \<and>
    loadOptions_calls (fst (useEffect_run dependent_props [(''hospital'', JString [])])) = [] \<and>
    options (run_actions idle_state (fst (useEffect_run dependent_props [(''hospital'', JString [])]))) = [])
   \<and> loadOptions_calls (fst (useEffect_run dependent_props [(''hospital'', JString ''h1'')]))
       = [Some (''hospital'', JString ''h1'')]
   \<and> useEffect_run static_props [] = ([], Returned ())"
  using dependency_gates_loading [of dependent_props "[(''hospital'', JString [])]" idle_state]
    dependency_gates_loading [of dependent_props "[(''hospital'', JString ''h1'')]" idle_state]
    dependency_gates_loading [of static_props "[]" idle_state]
  by (simp add: dependent_props_def static_props_def truthy_def dependencyValue_def
      useWatch_def make_formData_def run_actions_def)

section \<open>The selection has no duplicates\<close>

text \<open>
  C4. When the selection has no duplicates, the list an option's \<^verbatim>\<open>onSelect\<close> passes to
  \<^verbatim>\<open>field.onChange\<close> (the option selected or not) has none, and neither has a list a
  badge's \<^verbatim>\<open>onClick\<close> passes; an enabled badge makes one such call.
\<close>

theorem selection_stays_distinct:
  assumes "distinct (value_or_empty fv)"
  shows "(\<exists>vs. item_onSelect (renderItem fv opt) = [FieldOnChange vs] \<and> distinct vs) \<and>
         list_all distinct (onChange_calls (badge_onClick (renderBadge p s (value_or_empty fv) x))) \<and>
         (\<not> disabled p \<longrightarrow>
            (\<exists>vs. onChange_calls (badge_onClick (renderBadge p s (value_or_empty fv) x)) = [vs]))"
proof (intro conjI impI)
  show "\<exists>vs. item_onSelect (renderItem fv opt) = [FieldOnChange vs] \<and> distinct vs"
  proof (cases "option_value opt \<in> set (value_or_empty fv)")
    case True
    then obtain v where "fv = Some v" and "option_value opt \<in> set v"
      by (cases fv) (simp_all add: value_or_empty_def)
    with assms show ?thesis
      by (simp add: onSelect_selected value_or_empty_def distinct_removeAll)
  next
    case False
    with assms show ?thesis by (simp add: onSelect_unselected)
  qed
  show "list_all distinct (onChange_calls (badge_onClick (renderBadge p s (value_or_empty fv) x)))"
    using assms
    by (cases "disabled p")
       (simp_all add: badge_onClick_disabled badge_onClick_enabled distinct_removeAll)
  assume "\<not> disabled p"
  then show "\<exists>vs. onChange_calls (badge_onClick (renderBadge p s (value_or_empty fv) x)) = [vs]"
    by (simp add: badge_onClick_enabled)
qed

theorem selection_stays_distinct_witness:
  "(\<exists>vs. item_onSelect (renderItem (Some [''a'', ''b'']) opt_a) = [FieldOnChange vs] \<and> distinct vs) \<and>
   list_all distinct
     (onChange_calls (badge_onClick (renderBadge static_props idle_state [''a'', ''b''] ''b''))) \<and>
   (\<exists>vs. onChange_calls (badge_onClick (renderBadge static_props idle_state [''a'', ''b''] ''b''))
      = [vs])"
  using selection_stays_distinct [of "Some [''a'', ''b'']" opt_a static_props idle_state "''b''"]
  by (simp add: value_or_empty_def static_props_def)

section \<open>A rejected load\<close>

text \<open>
  C5, as stated, fails: when \<^verbatim>\<open>loadOptions\<close> rejects, the multi-select logs to the
  console and shows no toast (the toasts of this file are those of \<^verbatim>\<open>ProfileHeader\<close>).
\<close>

theorem rejected_load_shows_no_toast:
  "loadOptions failing_props = Some failing_loader \<and>
   failing_loader (make_formData failing_props (dependencyValue failing_props []))
     = Rejects (JString ''network'') \<and>
   useEffect_run failing_props [] =
     ([SetLoading True, LoadOptions None,
       ConsoleError ''Erreur lors du chargement des options pour specialty:'' (JString ''network''),
       SetLoading False], Returned ()) \<and>
   toast_calls (fst (useEffect_run failing_props [])) = []"
  by (simp add: failing_props_def static_props_def failing_loader_def useEffect_run_def
      truthy_def dependencyValue_def hasDependencyValue_def fetchOptions_def make_formData_def
      try_catch_finally_def call_loadOptions_def emit_def await_def load_error_message_def)

text \<open>
  C5, amended. For every rejection of \<^verbatim>\<open>loadOptions\<close> in the option-loading effect, the
  handling is one \<^verbatim>\<open>console.error\<close> call, with the message naming the field and with the
  error, and no toast; the \<^verbatim>\<open>finally\<close> block then sets \<^verbatim>\<open>loading\<close> to false and
  \<^verbatim>\<open>fetchOptions\<close> returns normally: the error is not rethrown and reaches no caller.
\<close>

theorem rejected_load_is_logged:
  assumes "\<not> truthy (dependsOn p) \<or> hasDependencyValue (dependencyValue p c)"
    and "loadOptions p = Some load"
    and "load (make_formData p (dependencyValue p c)) = Rejects e"
  shows "useEffect_run p c =
           ([SetLoading True, LoadOptions (make_formData p (dependencyValue p c)),
             ConsoleError (''Erreur lors du chargement des options pour '' @ name p @ '':'') e,
             SetLoading False],
            Returned ()) \<and>
         toast_calls (fst (useEffect_run p c)) = []"
  using assms
  by (simp add: useEffect_fetches fetchOptions_rejects load_error_message_def
      del: append.simps)

theorem rejected_load_is_logged_witness:
  "useEffect_run failing_props [] =
     ([SetLoading True, LoadOptions None,
       ConsoleError ''Erreur lors du chargement des options pour specialty:'' (JString ''network''),
       SetLoading False], Returned ()) \<and>
   toast_calls (fst (useEffect_run failing_props [])) = []"
  using rejected_load_is_logged [of failing_props "[]" failing_loader "JString ''network''"]
  by (simp add: failing_props_def static_props_def failing_loader_def truthy_def
      make_formData_def)

section \<open>Toggling\<close>

text \<open>
  C6. For a selection \<open>v\<close> (the empty list when the field has no value) that does not
  contain the value of an option, selecting the option makes the field \<open>v\<close> followed by
  the value, and deselecting it then, by the option's \<^verbatim>\<open>onSelect\<close> or by the badge of an
  enabled component, makes the field \<open>v\<close> again.
\<close>

theorem toggle_roundtrip:
  assumes "option_value opt \<notin> set (value_or_empty fv)"
  shows "field_after fv (item_onSelect (renderItem fv opt))
           = Some (value_or_empty fv @ [option_value opt]) \<and>
         field_after (Some (value_or_empty fv @ [option_value opt]))
            (item_onSelect (renderItem (Some (value_or_empty fv @ [option_value opt])) opt))
           = Some (value_or_empty fv) \<and>
         (\<not> disabled p \<longrightarrow>
            field_after (Some (value_or_empty fv @ [option_value opt]))
              (badge_onClick
                 (renderBadge p s (value_or_empty fv @ [option_value opt]) (option_value opt)))
              = Some (value_or_empty fv))"
proof -
  let ?x = "option_value opt" and ?v = "value_or_empty fv"
  have undo: "removeAll ?x (?v @ [?x]) = ?v"
    using assms by simp
  have deselect: "item_onSelect (renderItem (Some (?v @ [?x])) opt)
      = [FieldOnChange (removeAll ?x (?v @ [?x]))]"
    by (rule onSelect_selected) simp
  have unbadge: "\<not> disabled p \<Longrightarrow> badge_onClick (renderBadge p s (?v @ [?x]) ?x)
      = [StopPropagation, FieldOnChange (removeAll ?x (?v @ [?x]))]"
    by (rule badge_onClick_enabled)
  have select: "item_onSelect (renderItem fv opt) = [FieldOnChange (?v @ [?x])]"
    using assms by (rule onSelect_unselected)
  show ?thesis
    unfolding select deselect undo using unbadge undo by simp
qed

theorem toggle_roundtrip_witness:
  "field_after (Some [''a'']) (item_onSelect (renderItem (Some [''a'']) opt_b))
     = Some [''a'', ''b''] \<and>
   field_after (Some [''a'', ''b'']) (item_onSelect (renderItem (Some [''a'', ''b'']) opt_b))
     = Some [''a''] \<and>
   field_after (Some [''a'', ''b''])
     (badge_onClick (renderBadge static_props idle_state [''a'', ''b''] ''b'')) = Some [''a'']"
  using toggle_roundtrip [of opt_b "Some [''a'']" static_props idle_state]
  by (simp add: opt_b_def value_or_empty_def static_props_def)

section \<open>An empty options list\<close>

text \<open>
  C7. With no options and \<^verbatim>\<open>loading\<close> false, the list shows the text
  \<^verbatim>\<open>Aucune option disponible\<close> and no option item.
\<close>

theorem empty_options_placeholder:
  assumes "options s = []" and "\<not> loading s"
  shows "renderPopover s fv = PopoverList no_result_text (NoOptions ''Aucune option disponible'')
         \<and> command_items (renderPopover s fv) = []"
  using assms by (simp add: renderPopover_def renderGroup_def)

theorem empty_options_placeholder_witness:
  "renderPopover \<lparr>options = [], loading = False\<rparr> (Some [''a''])
     = PopoverList no_result_text (NoOptions ''Aucune option disponible'')
   \<and> command_items (renderPopover \<lparr>options = [], loading = False\<rparr> (Some [''a''])) = []"
  using empty_options_placeholder [of "\<lparr>options = [], loading = False\<rparr>" "Some [''a'']"]
  by simp

section \<open>The profile image upload\<close>

lemma handleProfileImageChange_suspended:
  assumes "first_file files = Some f" and "timer env 1500 = NeverSettles"
  shows "handleProfileImageChange env files =
           ([SetIsUploading True, FormDataAppend ''image'' f, SetTimeout 1500], Pending)"
  using assms
  by (simp add: handleProfileImageChange_def try_catch_finally_def upload_delay_def
      emit_def await_def)

lemma handleProfileImageChange_trace:
  assumes "first_file files = Some f" and "timer env 1500 \<noteq> NeverSettles"
  shows "\<exists>mid r. handleProfileImageChange env files =
           ([SetIsUploading True, FormDataAppend ''image'' f, SetTimeout 1500] @ mid
              @ [SetIsUploading False], r)
         \<and> setIsUploading_calls mid = [] \<and> r \<noteq> Pending"
  using assms
  by (cases "timer env 1500"; cases "object_url env f";
      cases "toast_throws env success_toast"; cases "toast_throws env error_toast")
     (simp_all add: handleProfileImageChange_def try_catch_finally_def upload_delay_def
        createObjectURL_def toast_def emit_def await_def)

lemma handleProfileImageChange_success:
  assumes "first_file files = Some f" and "timer env 1500 = Resolves ()"
    and "object_url env f = Inr u" and "toast_throws env success_toast = None"
  shows "handleProfileImageChange env files =
           ([SetIsUploading True, FormDataAppend ''image'' f, SetTimeout 1500,
             CreateObjectURL f, Toast success_toast, SetIsUploading False], Returned ())"
  using assms
  by (simp add: handleProfileImageChange_def try_catch_finally_def upload_delay_def
      createObjectURL_def toast_def emit_def await_def)

lemma handleProfileImageChange_failure:
  assumes "first_file files = Some f" and "timer env 1500 = Resolves ()"
    and "object_url env f = Inl e" and "toast_throws env error_toast = None"
  shows "handleProfileImageChange env files =
           ([SetIsUploading True, FormDataAppend ''image'' f, SetTimeout 1500,
             CreateObjectURL f, Toast error_toast, SetIsUploading False], Returned ())"
  using assms
  by (simp add: handleProfileImageChange_def try_catch_finally_def upload_delay_def
      createObjectURL_def toast_def emit_def await_def)

lemma run_profile_actions_append:
  "run_profile_actions s (t @ u) = run_profile_actions (run_profile_actions s t) u"
  by (simp add: run_profile_actions_def)

lemma handleProfileImageChange_finished:
  assumes "first_file files = Some f" and "snd (handleProfileImageChange env files) \<noteq> Pending"
  shows "isUploading (run_profile_actions s (fst (handleProfileImageChange env files))) = False"
proof -
  have "timer env 1500 \<noteq> NeverSettles"
    using assms handleProfileImageChange_suspended [of files f env] by auto
  from handleProfileImageChange_trace [OF assms(1) this]
  obtain mid r where run: "handleProfileImageChange env files =
      ([SetIsUploading True, FormDataAppend ''image'' f, SetTimeout 1500] @ mid
         @ [SetIsUploading False], r)"
    by blast
  show ?thesis
    unfolding run fst_conv append_assoc [symmetric]
    by (simp only: run_profile_actions_append) (simp add: run_profile_actions_def)
qed

text \<open>
  C8. For a change event that carries a file, whatever \<^verbatim>\<open>URL.createObjectURL\<close> and
  \<^verbatim>\<open>toast\<close> do, \<^verbatim>\<open>handleProfileImageChange\<close> first sets \<^verbatim>\<open>isUploading\<close> to true, appends
  the file to the form data, sets the 1500 ms timer and awaits it: as long as the timer's
  promise has not settled the handler is suspended and has done nothing else. Once the
  promise has settled the handler finishes (it returns or throws) with
  \<^verbatim>\<open>setIsUploading(false)\<close> as its last call and no other call of the setter in between,
  both when the body completes (the success toast is shown) and when it throws (the error
  toast is shown). Whenever the handler has finished, \<^verbatim>\<open>isUploading\<close> is false.
\<close>

theorem upload_flag_reset:
  assumes "first_file files = Some f"
  shows "(timer env 1500 = NeverSettles \<longrightarrow>
            handleProfileImageChange env files =
              ([SetIsUploading True, FormDataAppend ''image'' f, SetTimeout 1500], Pending)) \<and>
         (timer env 1500 \<noteq> NeverSettles \<longrightarrow>
            (\<exists>mid r. handleProfileImageChange env files =
               ([SetIsUploading True, FormDataAppend ''image'' f, SetTimeout 1500] @ mid
                  @ [SetIsUploading False], r)
             \<and> setIsUploading_calls mid = [] \<and> r \<noteq> Pending)) \<and>
         (timer env 1500 = Resolves () \<and> toast_throws env success_toast = None \<and>
          (\<exists>u. object_url env f = Inr u) \<longrightarrow>
            handleProfileImageChange env files =
              ([SetIsUploading True, FormDataAppend ''image'' f, SetTimeout 1500,
                CreateObjectURL f, Toast success_toast, SetIsUploading False], Returned ())) \<and>
         (timer env 1500 = Resolves () \<and> toast_throws env error_toast = None \<and>
          (\<exists>e. object_url env f = Inl e) \<longrightarrow>
            handleProfileImageChange env files =
              ([SetIsUploading True, FormDataAppend ''image'' f, SetTimeout 1500,
                CreateObjectURL f, Toast error_toast, SetIsUploading False], Returned ())) \<and>
         (snd (handleProfileImageChange env files) \<noteq> Pending \<longrightarrow>
            isUploading (run_profile_actions s (fst (handleProfileImageChange env files)))
              = False)"
proof (intro conjI impI)
  assume "timer env 1500 = NeverSettles"
  with assms show "handleProfileImageChange env files =
      ([SetIsUploading True, FormDataAppend ''image'' f, SetTimeout 1500], Pending)"
    by (rule handleProfileImageChange_suspended)
next
  assume "timer env 1500 \<noteq> NeverSettles"
  with assms show "\<exists>mid r. handleProfileImageChange env files =
      ([SetIsUploading True, FormDataAppend ''image'' f, SetTimeout 1500] @ mid
         @ [SetIsUploading False], r)
      \<and> setIsUploading_calls mid = [] \<and> r \<noteq> Pending"
    by (rule handleProfileImageChange_trace)
next
  assume "timer env 1500 = Resolves () \<and> toast_throws env success_toast = None \<and>
    (\<exists>u. object_url env f = Inr u)"
  with assms show "handleProfileImageChange env files =
      ([SetIsUploading True, FormDataAppend ''image'' f, SetTimeout 1500,
        CreateObjectURL f, Toast success_toast, SetIsUploading False], Returned ())"
    by (auto intro: handleProfileImageChange_success)
next
  assume "timer env 1500 = Resolves () \<and> toast_throws env error_toast = None \<and>
    (\<exists>e. object_url env f = Inl e)"
  with assms show "handleProfileImageChange env files =
      ([SetIsUploading True, FormDataAppend ''image'' f, SetTimeout 1500,
        CreateObjectURL f, Toast error_toast, SetIsUploading False], Returned ())"
    by (auto intro: handleProfileImageChange_failure)
next
  assume "snd (handleProfileImageChange env files) \<noteq> Pending"
  with assms show
    "isUploading (run_profile_actions s (fst (handleProfileImageChange env files))) = False"
    by (rule handleProfileImageChange_finished)
qed

theorem upload_flag_reset_witness:
  "handleProfileImageChange stalled_env (Some [File ''me.png'']) =
     ([SetIsUploading True, FormDataAppend ''image'' (File ''me.png''), SetTimeout 1500],
      Pending) \<and>
   handleProfileImageChange browser_env (Some [File ''me.png'']) =
     ([SetIsUploading True, FormDataAppend ''image'' (File ''me.png''), SetTimeout 1500,
       CreateObjectURL (File ''me.png''), Toast success_toast, SetIsUploading False],
      Returned ()) \<and>
   handleProfileImageChange broken_env (Some [File ''me.png'']) =
     ([SetIsUploading True, FormDataAppend ''image'' (File ''me.png''), SetTimeout 1500,
       CreateObjectURL (File ''me.png''), Toast error_toast, SetIsUploading False],
      Returned ()) \<and>
   isUploading (run_profile_actions \<lparr>isUploading = True, coverIsUploading = False\<rparr>
     (fst (handleProfileImageChange broken_env (Some [File ''me.png''])))) = False"
proof -
  let ?files = "Some [File ''me.png'']" and ?s = "\<lparr>isUploading = True, coverIsUploading = False\<rparr>"
  have given: "first_file ?files = Some (File ''me.png'')"
    by (simp add: first_file_def)
  have stalled: "timer stalled_env 1500 = NeverSettles"
    by (simp add: stalled_env_def)
  have browser: "timer browser_env 1500 = Resolves () \<and>
      toast_throws browser_env success_toast = None \<and>
      (\<exists>u. object_url browser_env (File ''me.png'') = Inr u)"
    by (simp add: browser_env_def)
  have broken: "timer broken_env 1500 = Resolves () \<and>
      toast_throws broken_env error_toast = None \<and>
      (\<exists>e. object_url broken_env (File ''me.png'') = Inl e)"
    by (simp add: broken_env_def)
  have one: "handleProfileImageChange stalled_env ?files =
      ([SetIsUploading True, FormDataAppend ''image'' (File ''me.png''), SetTimeout 1500],
       Pending)"
    using upload_flag_reset [OF given, of stalled_env ?s] stalled by blast
  have two: "handleProfileImageChange browser_env ?files =
      ([SetIsUploading True, FormDataAppend ''image'' (File ''me.png''), SetTimeout 1500,
        CreateObjectURL (File ''me.png''), Toast success_toast, SetIsUploading False],
       Returned ())"
    using upload_flag_reset [OF given, of browser_env ?s] browser by blast
  have three: "handleProfileImageChange broken_env ?files =
      ([SetIsUploading True, FormDataAppend ''image'' (File ''me.png''), SetTimeout 1500,
        CreateObjectURL (File ''me.png''), Toast error_toast, SetIsUploading False],
       Returned ())"
    using upload_flag_reset [OF given, of broken_env ?s] broken by blast
  have "snd (handleProfileImageChange broken_env ?files) \<noteq> Pending"
    by (simp add: three)
  then have four: "isUploading (run_profile_actions ?s
      (fst (handleProfileImageChange broken_env ?files))) = False"
    using upload_flag_reset [OF given, of broken_env ?s] by blast
  from one two three four show ?thesis by blast
qed

text \<open>
  C9. When the change event carries no file (\<^verbatim>\<open>files\<close> is null or empty),
  \<^verbatim>\<open>handleProfileImageChange\<close> returns at once and calls nothing: no state setter, no
  timer, no toast; the component's state is what it was.
\<close>

theorem no_file_no_effect:
  assumes "files = None \<or> files = Some []"
  shows "handleProfileImageChange env files = ([], Returned ()) \<and>
         run_profile_actions s (fst (handleProfileImageChange env files)) = s"
  using assms
  by (auto simp add: handleProfileImageChange_def first_file_def run_profile_actions_def)

theorem no_file_no_effect_witness:
  "handleProfileImageChange browser_env (Some []) = ([], Returned ()) \<and>
   handleProfileImageChange browser_env None = ([], Returned ())"
  using no_file_no_effect [of "Some []" browser_env "\<lparr>isUploading = False, coverIsUploading = False\<rparr>"]
    no_file_no_effect [of None browser_env "\<lparr>isUploading = False, coverIsUploading = False\<rparr>"]
  by simp

section \<open>Options after a load\<close>

text \<open>
  C10. In a run of the effect that calls \<^verbatim>\<open>loadOptions\<close>: if the call rejects, the effect
  never calls \<^verbatim>\<open>setOptions\<close>, so the options are the ones held before, and \<^verbatim>\<open>loading\<close>
  ends false; if it resolves with a list, the options become that list; and the effect
  calls \<^verbatim>\<open>setOptions\<close> only if the call resolves.
\<close>

theorem rejected_load_keeps_options:
  assumes "\<not> truthy (dependsOn p) \<or> hasDependencyValue (dependencyValue p c)"
    and "loadOptions p = Some load"
  shows "(load (make_formData p (dependencyValue p c)) = Rejects e \<longrightarrow>
            setOptions_calls (fst (useEffect_run p c)) = [] \<and>
            options (run_actions s (fst (useEffect_run p c))) = options s \<and>
            loading (run_actions s (fst (useEffect_run p c))) = False) \<and>
         (load (make_formData p (dependencyValue p c)) = Resolves xs \<longrightarrow>
            setOptions_calls (fst (useEffect_run p c)) = [xs] \<and>
            options (run_actions s (fst (useEffect_run p c))) = xs) \<and>
         (setOptions_calls (fst (useEffect_run p c)) \<noteq> [] \<longrightarrow>
            (\<exists>ys. load (make_formData p (dependencyValue p c)) = Resolves ys))"
proof -
  have run: "useEffect_run p c = fetchOptions p (dependencyValue p c)"
    using assms(1) by (rule useEffect_fetches)
  show ?thesis
  proof (cases "load (make_formData p (dependencyValue p c))")
    case (Resolves ys)
    with assms(2) show ?thesis
      by (simp add: run fetchOptions_resolves run_actions_def)
  next
    case (Rejects e')
    with assms(2) show ?thesis
      by (simp add: run fetchOptions_rejects run_actions_def)
  next
    case NeverSettles
    with assms(2) show ?thesis
      by (simp add: run fetchOptions_never_settles run_actions_def)
  qed
qed

theorem rejected_load_keeps_options_witness:
  "setOptions_calls (fst (useEffect_run failing_props [])) = [] \<and>
   options (run_actions idle_state (fst (useEffect_run failing_props []))) = [opt_a, opt_b] \<and>
   loading (run_actions idle_state (fst (useEffect_run failing_props []))) = False"
  using rejected_load_keeps_options [of failing_props "[]" failing_loader "JString ''network''"
      idle_state "[]"]
  by (simp add: failing_props_def static_props_def failing_loader_def truthy_def
      make_formData_def idle_state_def)

end
